theory Spec2Isabelle
  imports Complex_Main "HOL-Library.Monad_Syntax"
begin

section \<open>Graticule layer: data model\<close>

text \<open>
  The development embeds \<^verbatim>\<open>src/components/GraticuleLayer.ts\<close> and the id counter of
  \<^verbatim>\<open>src/components/util.ts\<close>. A JavaScript number is a real that an IEEE double holds.
  The arithmetic of \<^verbatim>\<open>computeGrid\<close>, whose line counts depend on it, rounds every
  result to the nearest double; NaN and the infinities are outside the model, except
  where the code's behaviour on them is written out as a branch of its own (division by
  a zero interval). The label formatter and the tick offsets are computed over the
  reals. JavaScript strings are lists of code units; every character the code produces
  is below 256, so \<^typ>\<open>char\<close> holds it and \<^const>\<open>length\<close> is the \<^verbatim>\<open>length\<close> property.
\<close>

type_synonym lnglat = "real \<times> real"

text \<open>A grid line is the two-element array \<^verbatim>\<open>[[x0, y0], [x1, y1]]\<close>.\<close>

type_synonym gridline = "lnglat \<times> lnglat"

text \<open>The value \<^verbatim>\<open>LngLatBounds.convert\<close> hands back for a present \<^verbatim>\<open>bounds\<close> option.\<close>

record Bounds =
  west :: real
  south :: real
  east :: real
  north :: real

text \<open>
  What the code can throw: \<^verbatim>\<open>throw '...'\<close> in \<^verbatim>\<open>computeGrid\<close> (unit neither
  \<^verbatim>\<open>'d'\<close> nor \<^verbatim>\<open>'m'\<close>), \<^verbatim>\<open>throw '...'\<close> in \<^verbatim>\<open>addTo\<close> (no map), the
  \<^verbatim>\<open>TypeError\<close> of a property read on \<^verbatim>\<open>null\<close> (\<^verbatim>\<open>bounds\<close> or \<^verbatim>\<open>_map\<close> absent), and
  the \<^verbatim>\<open>IndexSizeError\<close> of \<^verbatim>\<open>getImageData\<close> for a rectangle without width or height.
\<close>

datatype error = UnsupportedUnitError | InvalidHostError | TypeError | IndexSizeError

section \<open>Double-precision arithmetic\<close>

text \<open>
  Rounding to the nearest double, ties to even: 53 significant bits, the exponent of
  the last bit not below \<open>-1074\<close> (subnormal numbers). Results at or beyond \<open>2 ^ 1024\<close>,
  which are infinite in the code, are outside the model. \<^term>\<open>bits n\<close> is the number of
  binary digits of \<open>n\<close>, \<^term>\<open>ilog2 x\<close> the exponent of the leading bit of a positive
  \<open>x\<close>, \<^term>\<open>pow2 e\<close> the power \<open>2 ^ e\<close> for an integer \<open>e\<close>.
\<close>

fun bits :: "nat \<Rightarrow> nat" where
  "bits n = (if n = 0 then 0 else Suc (bits (n div 2)))"

declare bits.simps [simp del]

definition ilog2 :: "real \<Rightarrow> int" where
  "ilog2 x = (if 1 \<le> x then int (bits (nat \<lfloor>x\<rfloor>)) - 1
              else - int (bits (nat (\<lceil>1 / x\<rceil> - 1))))"

definition pow2 :: "int \<Rightarrow> real" where
  "pow2 e = (if 0 \<le> e then 2 ^ nat e else 1 / 2 ^ nat (- e))"

definition roundEven :: "real \<Rightarrow> int" where
  "roundEven y =
     (let f = \<lfloor>y\<rfloor>; r = y - of_int f
      in if r < 1 / 2 then f else if 1 / 2 < r then f + 1 else if even f then f else f + 1)"

definition rd :: "real \<Rightarrow> real" where
  "rd x = (if x = 0 then 0
           else let e = max (ilog2 \<bar>x\<bar> - 52) (- 1074)
                in of_int (roundEven (x / pow2 e)) * pow2 e)"

text \<open>The operators \<^verbatim>\<open>+\<close>, \<^verbatim>\<open>*\<close> and \<^verbatim>\<open>/\<close> on doubles; a decimal literal \<open>x\<close> is \<open>rd x\<close>.\<close>

definition fadd :: "real \<Rightarrow> real \<Rightarrow> real" where
  "fadd a b = rd (a + b)"

definition fmul :: "real \<Rightarrow> real \<Rightarrow> real" where
  "fmul a b = rd (a * b)"

definition fdiv :: "real \<Rightarrow> real \<Rightarrow> real" where
  "fdiv a b = rd (a / b)"

section \<open>computeGrid\<close>

text \<open>
  The loop \<^verbatim>\<open>for (let n = lo; n <= hi; n += interval) lines.push(mk(n))\<close>. It never
  ends with a negative interval, nor when \<^verbatim>\<open>n + interval\<close> rounds back to \<^verbatim>\<open>n\<close>, so
  its result is an option and \<^const>\<open>None\<close> stands for not returning.
\<close>

partial_function (option) gridLoop ::
  "real \<Rightarrow> real \<Rightarrow> real \<Rightarrow> (real \<Rightarrow> 'a) \<Rightarrow> 'a list \<Rightarrow> 'a list option" where
  "gridLoop n hi step mk acc =
     (if n \<le> hi then gridLoop (fadd n step) hi step mk (acc @ [mk n]) else Some acc)"

declare gridLoop.simps [code]

definition lngLine :: "real \<Rightarrow> real \<Rightarrow> real \<Rightarrow> gridline" where
  "lngLine s n x = ((x, s), (x, n))"

definition latLine :: "real \<Rightarrow> real \<Rightarrow> real \<Rightarrow> gridline" where
  "latLine w e y = ((w, y), (e, y))"

text \<open>
  \<^verbatim>\<open>computeGrid\<close> on the three fields it reads, operation by operation as the code
  evaluates them; \<^verbatim>\<open>Math.ceil\<close> and \<^verbatim>\<open>Math.floor\<close> are exact. A zero interval makes
  every snapped bound NaN in the code (\<^verbatim>\<open>x / 0\<close> is NaN or an infinity, and an infinity
  times zero is NaN), every loop test \<^verbatim>\<open>NaN <= NaN\<close> is false, and both lists stay
  empty; that case is a branch here because real division by zero would say otherwise.
\<close>

definition computeGrid ::
  "Bounds option \<Rightarrow> string \<Rightarrow> real \<Rightarrow> (error + gridline list \<times> gridline list) option" where
  "computeGrid bnds intervalUnit interval =
     (case bnds of
        None \<Rightarrow> Some (Inl TypeError)
      | Some b \<Rightarrow>
          if intervalUnit = ''d'' then
            (if interval = 0 then Some (Inr ([], []))
             else do {
               let minX = fmul (of_int \<lceil>fdiv (west b) interval\<rceil>) interval;
               let maxX = fmul (of_int \<lfloor>fdiv (east b) interval\<rfloor>) interval;
               let minY = fmul (of_int \<lceil>fdiv (south b) interval\<rceil>) interval;
               let maxY = fmul (of_int \<lfloor>fdiv (north b) interval\<rfloor>) interval;
               lngLines \<leftarrow> gridLoop minX maxX interval (lngLine (south b) (north b)) [];
               latLines \<leftarrow> gridLoop minY maxY interval (latLine (west b) (east b)) [];
               Some (Inr (lngLines, latLines))
             })
          else if intervalUnit = ''m'' then
            (if interval = 0 then Some (Inr ([], []))
             else do {
               let minX = fmul (of_int \<lceil>fdiv (fmul (west b) 60) interval\<rceil>) interval;
               let maxX = fmul (of_int \<lfloor>fdiv (fmul (east b) 60) interval\<rfloor>) interval;
               let minY = fmul (of_int \<lceil>fdiv (fmul (south b) 60) interval\<rceil>) interval;
               let maxY = fmul (of_int \<lfloor>fdiv (fmul (north b) 60) interval\<rfloor>) interval;
               lngLines \<leftarrow> gridLoop minX maxX interval
                              (\<lambda>n. lngLine (south b) (north b) (fdiv n 60)) [];
               latLines \<leftarrow> gridLoop minY maxY interval
                              (\<lambda>n. latLine (west b) (east b) (fdiv n 60)) [];
               Some (Inr (lngLines, latLines))
             })
          else Some (Inl UnsupportedUnitError))"

text \<open>
  The multiples of an interval between two bounds, in exact arithmetic: what the loop
  visits when no operation rounds.
\<close>

definition multiples :: "real \<Rightarrow> real \<Rightarrow> real \<Rightarrow> real list" where
  "multiples lo hi interval =
     map (\<lambda>k. of_int (\<lceil>lo / interval\<rceil> + int k) * interval)
         [0 ..< nat (max 0 (\<lfloor>hi / interval\<rfloor> - \<lceil>lo / interval\<rceil> + 1))]"

section \<open>uniqueId\<close>

text \<open>
  \<^verbatim>\<open>let id = 1\<close> and \<^verbatim>\<open>uniqueId() { return id++ }\<close> of \<^verbatim>\<open>util.ts\<close>: the counter is
  module state, so it is passed in and handed back next to the returned number.
\<close>

definition initialId :: nat where
  "initialId = 1"

definition uniqueId :: "nat \<Rightarrow> nat \<times> nat" where
  "uniqueId c = (c, c + 1)"

text \<open>
  String conversion of a number that holds a non-negative integer, as string concatenation
  and template literals do it: its decimal digits.
\<close>

definition digitChar :: "nat \<Rightarrow> char" where
  "digitChar d = ''0123456789'' ! d"

fun showNat :: "nat \<Rightarrow> string" where
  "showNat n = (if n < 10 then [digitChar n]
                else showNat (n div 10) @ [digitChar (n mod 10)])"

declare showNat.simps [simp del]

definition showInt :: "int \<Rightarrow> string" where
  "showInt i = (if i < 0 then CHR ''-'' # showNat (nat (- i)) else showNat (nat i))"

definition makeIconId :: "nat \<Rightarrow> string \<times> nat" where
  "makeIconId c = (case uniqueId c of (n, c') \<Rightarrow> (''graticule-icon-'' @ showNat n, c'))"

record LayerIDs =
  grid_id :: string
  tick_id :: string
  border_id :: string
  label_id :: string

text \<open>
  \<^verbatim>\<open>initLayersId\<close> on the field \<^verbatim>\<open>_layerIDs\<close> and the counter. The object literal
  evaluates its four \<^verbatim>\<open>uniqueId()\<close> calls in the order grid, tick, border, label.
\<close>

definition initLayersId :: "LayerIDs option \<Rightarrow> nat \<Rightarrow> LayerIDs option \<times> nat" where
  "initLayersId ids c =
     (case ids of
        Some i \<Rightarrow> (Some i, c)
      | None \<Rightarrow>
          (case uniqueId c of (n1, c1) \<Rightarrow>
           case uniqueId c1 of (n2, c2) \<Rightarrow>
           case uniqueId c2 of (n3, c3) \<Rightarrow>
           case uniqueId c3 of (n4, c4) \<Rightarrow>
             (Some \<lparr>grid_id = ''grid_'' @ showNat n1, tick_id = ''tick_'' @ showNat n2,
                    border_id = ''border_'' @ showNat n3, label_id = ''label_'' @ showNat n4\<rparr>,
              c4)))"

text \<open>
  An id-generating call anywhere in the process is either an \<^verbatim>\<open>initLayersId\<close> on a layer
  without ids or a \<^verbatim>\<open>makeIconId\<close>. \<^term>\<open>generated\<close> lists, in order of generation, the
  ids a sequence of such calls produces from a counter value.
\<close>

datatype idCall = InitLayersId | MakeIconId

fun generated :: "idCall list \<Rightarrow> nat \<Rightarrow> string list" where
  "generated [] c = []"
| "generated (InitLayersId # cs) c =
     (case initLayersId None c of
        (Some i, c') \<Rightarrow> [grid_id i, tick_id i, border_id i, label_id i] @ generated cs c'
      | (None, c') \<Rightarrow> generated cs c')"
| "generated (MakeIconId # cs) c =
     (case makeIconId c of (i, c') \<Rightarrow> i # generated cs c')"

text \<open>The numbers \<^verbatim>\<open>uniqueId\<close> returns on \<open>n\<close> successive calls.\<close>

fun uniqueIds :: "nat \<Rightarrow> nat \<Rightarrow> nat list" where
  "uniqueIds 0 c = []"
| "uniqueIds (Suc n) c = (case uniqueId c of (v, c') \<Rightarrow> v # uniqueIds n c')"

section \<open>createlabelFormatter\<close>

definition formatTag :: "real \<Rightarrow> bool \<Rightarrow> string" where
  "formatTag v isLng =
     (if isLng then (if v > 0 then ''E'' else if v < 0 then ''W'' else [])
      else (if v > 0 then ''N'' else if v < 0 then ''S'' else []))"

text \<open>The remainder operator \<^verbatim>\<open>%\<close>: the quotient is truncated towards zero.\<close>

definition jsRem :: "real \<Rightarrow> real \<Rightarrow> real" where
  "jsRem a b = a - b * of_int (if a / b < 0 then \<lceil>a / b\<rceil> else \<lfloor>a / b\<rfloor>)"

text \<open>The degree sign, the apostrophe and the double quote of the label text.\<close>

definition degSign :: char where
  "degSign = CHR 0xB0"

definition minSign :: char where
  "minSign = CHR 0x27"

definition secSign :: char where
  "secSign = CHR 0x22"

text \<open>
  The inner function \<^verbatim>\<open>formatDegree\<close>, with the \<^verbatim>\<open>isLng\<close> and \<^verbatim>\<open>labelFormat\<close> it
  closes over as arguments. \<^verbatim>\<open>Math.round\<close> is \<open>\<lfloor>x + 1/2\<rfloor>\<close>, which is \<^const>\<open>round\<close>.
  There is no \<^verbatim>\<open>throw\<close> on this path: the last \<^verbatim>\<open>else\<close> takes every other format string.
\<close>

definition formatDegree :: "bool \<Rightarrow> string \<Rightarrow> real \<Rightarrow> string" where
  "formatDegree isLng labelFormat num =
     (let tag = formatTag num isLng;
          v = \<bar>num\<bar>;
          v1 = \<lfloor>v\<rfloor>;
          v2 = \<lfloor>(v - of_int v1) * 60\<rfloor>;
          v3 = round (jsRem ((v - of_int v1) * 3600) 60)
      in if labelFormat = ''degree'' then showInt v1 @ [degSign] @ tag
         else if labelFormat = ''minute'' then
           showInt v1 @ [degSign] @ showInt v2 @ [minSign] @ tag
         else showInt v1 @ [degSign] @ showInt v2 @ [minSign] @ showInt v3 @ [secSign] @ tag)"

definition createlabelFormatter :: "real \<Rightarrow> bool \<Rightarrow> string \<Rightarrow> string" where
  "createlabelFormatter num isLng labelFormat = formatDegree isLng labelFormat num"

text \<open>
  The formatter as the specification words it, for the three precision levels it names:
  hemisphere tag, then degrees, minutes and seconds of the magnitude.
\<close>

definition hemisphereTag :: "real \<Rightarrow> bool \<Rightarrow> string" where
  "hemisphereTag v isLongitudeAxis =
     (if v > 0 then (if isLongitudeAxis then ''E'' else ''N'')
      else if v < 0 then (if isLongitudeAxis then ''W'' else ''S'')
      else [])"

definition specDegrees :: "real \<Rightarrow> int" where
  "specDegrees v = \<lfloor>\<bar>v\<bar>\<rfloor>"

definition specMinutes :: "real \<Rightarrow> int" where
  "specMinutes v = \<lfloor>(\<bar>v\<bar> - of_int (specDegrees v)) * 60\<rfloor>"

definition specSeconds :: "real \<Rightarrow> int" where
  "specSeconds v = round (jsRem ((\<bar>v\<bar> - of_int (specDegrees v)) * 3600) 60)"

text \<open>
  The specification names three precision levels and an \<^verbatim>\<open>UnsupportedFormatError\<close> for
  any other tag; \<^const>\<open>None\<close> stands for that failure.
\<close>

definition specFormat :: "real \<Rightarrow> bool \<Rightarrow> string \<Rightarrow> string option" where
  "specFormat v isLongitudeAxis precision =
     (if precision = ''degree'' then
        Some (showInt (specDegrees v) @ [degSign] @ hemisphereTag v isLongitudeAxis)
      else if precision = ''minute'' then
        Some (showInt (specDegrees v) @ [degSign] @ showInt (specMinutes v) @ [minSign]
              @ hemisphereTag v isLongitudeAxis)
      else if precision = ''second'' then
        Some (showInt (specDegrees v) @ [degSign] @ showInt (specMinutes v) @ [minSign]
              @ showInt (specSeconds v) @ [secSign] @ hemisphereTag v isLongitudeAxis)
      else None)"

section \<open>Feature collections, styles and rendering layers\<close>

text \<open>
  The \<^verbatim>\<open>properties\<close> of a label point; line features carry the empty object, which is
  \<^const>\<open>None\<close> in a feature.
\<close>

record LabelProps =
  label :: string
  rotate_deg :: real
  anchor :: string
  icon :: string

datatype geometry = LineString "lnglat list" | Point lnglat

record Feature =
  properties :: "LabelProps option"
  geometry :: geometry

text \<open>A \<^verbatim>\<open>FeatureCollection\<close> is its \<^verbatim>\<open>features\<close> array.\<close>

type_synonym FeatureCollection = "Feature list"

definition EMPTY_GEOSJON :: FeatureCollection where
  "EMPTY_GEOSJON = []"

definition lineFeature :: "lnglat list \<Rightarrow> Feature" where
  "lineFeature cs = \<lparr>properties = None, geometry = LineString cs\<rparr>"

text \<open>Style records; a field the caller left out is \<^const>\<open>None\<close>.\<close>

record StrokeStyle =
  lineColor :: "string option"
  lineCap :: "string option"
  lineJoin :: "string option"
  lineDasharray :: "real list option"
  lineWidth :: "real option"
  lineOpacity :: "real option"

record LabelStyle =
  color :: "string option"
  fontFamily :: "string option"
  fontSize :: "real option"
  fontWeight :: "string option"
  rotateStyle :: "real option"
  rotationAlignment :: "string option"
  allowOverlap :: "bool option"

datatype style = Stroke StrokeStyle | Label LabelStyle

fun strokeOf :: "style \<Rightarrow> StrokeStyle option" where
  "strokeOf (Stroke s) = Some s"
| "strokeOf (Label l) = None"

fun labelOf :: "style \<Rightarrow> LabelStyle option" where
  "labelOf (Label l) = Some l"
| "labelOf (Stroke s) = None"

text \<open>Values of the paint and layout objects of a layer descriptor.\<close>

datatype jsv = Undefined | Num real | Str string | Bool bool | NumArr "real list"
  | Expr "string list"

definition jsProp :: "('s \<Rightarrow> 'a option) \<Rightarrow> ('a \<Rightarrow> jsv) \<Rightarrow> 's option \<Rightarrow> jsv" where
  "jsProp field mk s =
     (case s of None \<Rightarrow> Undefined
      | Some r \<Rightarrow> (case field r of None \<Rightarrow> Undefined | Some v \<Rightarrow> mk v))"

record Layer =
  layer_id :: string
  layer_type :: string
  layer_source :: string
  minzoom :: real
  maxzoom :: real
  paint :: "(string \<times> jsv) list"
  layout :: "(string \<times> jsv) list"

text \<open>\<^verbatim>\<open>createLayer\<close>, with the \<^verbatim>\<open>minZoom\<close> and \<^verbatim>\<open>maxZoom\<close> it reads from \<^verbatim>\<open>this\<close>.\<close>

definition createLayer :: "real \<Rightarrow> real \<Rightarrow> string \<Rightarrow> string \<Rightarrow> style \<Rightarrow> Layer" where
  "createLayer minZ maxZ lid ltype sty =
     (let pl =
        (if ltype = ''line'' then
           ([(''line-color'', jsProp lineColor Str (strokeOf sty)),
             (''line-opacity'', jsProp lineOpacity Num (strokeOf sty)),
             (''line-width'', jsProp lineWidth Num (strokeOf sty))]
            @ (case Option.bind (strokeOf sty) lineDasharray of
                 Some d \<Rightarrow> if length d > 0 then [(''line-dasharray'', NumArr d)] else []
               | None \<Rightarrow> []),
            [(''line-cap'', jsProp lineCap Str (strokeOf sty)),
             (''line-join'', jsProp lineJoin Str (strokeOf sty))])
         else if ltype = ''symbol'' then
           ([],
            [(''icon-image'', Expr [''get'', ''icon'']),
             (''icon-size'', Num 1),
             (''icon-anchor'', Expr [''get'', ''anchor'']),
             (''icon-rotate'', Expr [''get'', ''rotate'']),
             (''icon-allow-overlap'', jsProp allowOverlap Bool (labelOf sty)),
             (''icon-rotation-alignment'', jsProp rotationAlignment Str (labelOf sty))])
         else ([], []))
      in \<lparr>layer_id = lid, layer_type = ltype, layer_source = lid,
          minzoom = minZ, maxzoom = maxZ, paint = fst pl, layout = snd pl\<rparr>)"

section \<open>drawLabel\<close>

text \<open>
  Modelled from the spec: the browser's canvas is not part of the repository. It is a
  parameter: the device pixel ratio (0 when the browser reports none) and the text
  measurement of a 2D context under a font given by weight, size and family. The
  measured width of the empty text is 0. \<^verbatim>\<open>getImageData\<close> takes the integer part of
  its arguments and throws an \<^verbatim>\<open>IndexSizeError\<close> when the width or the height it is
  asked for is 0.
\<close>

record Browser =
  devicePixelRatio :: real
  measureText :: "string \<times> real \<times> string \<Rightarrow> string \<Rightarrow> real"

definition textWidth :: "Browser \<Rightarrow> string \<times> real \<times> string \<Rightarrow> string \<Rightarrow> real" where
  "textWidth env fnt txt = (if txt = [] then 0 else measureText env fnt txt)"

definition integerPart :: "real \<Rightarrow> int" where
  "integerPart x = (if x < 0 then \<lceil>x\<rceil> else \<lfloor>x\<rfloor>)"

text \<open>
  The pixels of the bitmap are not modelled. A label image records the number assigned
  to the width and height of the square canvas, its side in CSS pixels, what was drawn,
  and the width and height \<^verbatim>\<open>getImageData\<close> was asked for.
\<close>

record LabelImage =
  canvasSize :: real
  canvasStyleSize :: real
  font :: "string \<times> real \<times> string"
  fillStyle :: string
  fillText :: string
  fillTextY :: real
  imageWidth :: int
  imageHeight :: real

text \<open>The variable \<^verbatim>\<open>size\<close> of \<^verbatim>\<open>drawLabel\<close>: the side of the canvas in CSS pixels.\<close>

definition canvasSide :: "string \<Rightarrow> real \<Rightarrow> real" where
  "canvasSide txt fontSize' = (if length txt = 0 then 256 else real (length txt) * fontSize')"

text \<open>
  \<^verbatim>\<open>drawLabel\<close> (lines 780 to 796 of the source), with the default values of its
  parameters applied by the caller. Its last statement, \<^verbatim>\<open>getImageData(0, 0, width,
  fontSize)\<close>, either returns the bitmap or throws.
\<close>

definition drawLabel ::
  "Browser \<Rightarrow> string \<Rightarrow> string \<Rightarrow> real \<Rightarrow> string \<Rightarrow> string \<Rightarrow> error + LabelImage" where
  "drawLabel env txt fontFamily' fontSize' color' fontWeight' =
     (let pixelRatio = (if devicePixelRatio env = 0 then 1 else devicePixelRatio env);
          size = canvasSide txt fontSize';
          width = round (textWidth env (fontWeight', fontSize', fontFamily') txt)
      in if width = 0 \<or> integerPart fontSize' = 0 then Inl IndexSizeError
         else Inr \<lparr>canvasSize = size * pixelRatio, canvasStyleSize = size,
                   font = (fontWeight', fontSize', fontFamily'), fillStyle = color',
                   fillText = txt, fillTextY = fontSize' / 2,
                   imageWidth = width, imageHeight = fontSize'\<rparr>)"

section \<open>The host map\<close>

text \<open>
  Modelled from the spec: the host renderer is not part of the repository. Its view
  (bearing, projection) is a parameter, and its source, layer and image registries are
  keyed lists in insertion order. Adding appends without looking, so that an id
  registered twice would show as two entries; looking up finds the first entry,
  replacing data rewrites every entry of the id, removing drops every entry of the id.
\<close>

record Mapbox =
  bearing :: real
  project :: "lnglat \<Rightarrow> real \<times> real"
  unproject :: "real \<times> real \<Rightarrow> lnglat"
  sources :: "(string \<times> FeatureCollection) list"
  layers :: "(string \<times> Layer) list"
  images :: "(string \<times> LabelImage) list"

definition getSource :: "Mapbox \<Rightarrow> string \<Rightarrow> FeatureCollection option" where
  "getSource m k = map_of (sources m) k"

definition setData :: "Mapbox \<Rightarrow> string \<Rightarrow> FeatureCollection \<Rightarrow> Mapbox" where
  "setData m k d = m\<lparr>sources := map (\<lambda>e. if fst e = k then (k, d) else e) (sources m)\<rparr>"

definition addSource :: "Mapbox \<Rightarrow> string \<Rightarrow> FeatureCollection \<Rightarrow> Mapbox" where
  "addSource m k d = m\<lparr>sources := sources m @ [(k, d)]\<rparr>"

definition removeSource :: "Mapbox \<Rightarrow> string \<Rightarrow> Mapbox" where
  "removeSource m k = m\<lparr>sources := filter (\<lambda>e. fst e \<noteq> k) (sources m)\<rparr>"

definition getLayer :: "Mapbox \<Rightarrow> string \<Rightarrow> Layer option" where
  "getLayer m k = map_of (layers m) k"

definition addLayer :: "Mapbox \<Rightarrow> Layer \<Rightarrow> Mapbox" where
  "addLayer m l = m\<lparr>layers := layers m @ [(layer_id l, l)]\<rparr>"

definition removeLayer :: "Mapbox \<Rightarrow> string \<Rightarrow> Mapbox" where
  "removeLayer m k = m\<lparr>layers := filter (\<lambda>e. fst e \<noteq> k) (layers m)\<rparr>"

definition hasImage :: "Mapbox \<Rightarrow> string \<Rightarrow> bool" where
  "hasImage m k = (map_of (images m) k \<noteq> None)"

definition addImage :: "Mapbox \<Rightarrow> string \<Rightarrow> LabelImage \<Rightarrow> Mapbox" where
  "addImage m k i = m\<lparr>images := images m @ [(k, i)]\<rparr>"

definition updateImage :: "Mapbox \<Rightarrow> string \<Rightarrow> LabelImage \<Rightarrow> Mapbox" where
  "updateImage m k i = m\<lparr>images := map (\<lambda>e. if fst e = k then (k, i) else e) (images m)\<rparr>"

section \<open>The graticule layer\<close>

text \<open>
  The fields of a \<^verbatim>\<open>GraticuleLayer\<close> after its constructor; \<open>map_ref\<close> is \<^verbatim>\<open>_map\<close>
  and \<open>layerIDs\<close> is \<^verbatim>\<open>_layerIDs\<close>. The layer holds the only reference to the host map
  the model follows, so the map's state is kept in the field.
\<close>

record GraticuleLayer =
  showLabel :: bool
  showTick :: bool
  showBorder :: bool
  tickLength :: real
  showGrid :: bool
  intervalUnit :: string
  interval :: real
  bounds :: "Bounds option"
  minZoom :: real
  maxZoom :: real
  labelFormatter :: string
  labelStyle :: LabelStyle
  tickStyle :: StrokeStyle
  gridStyle :: StrokeStyle
  borderStyle :: StrokeStyle
  map_ref :: "Mapbox option"
  layerIDs :: "LayerIDs option"

text \<open>The module's id counter together with the layer.\<close>

record World =
  idCounter :: nat
  glayer :: GraticuleLayer

subsection \<open>createGridLinesSource\<close>

definition coordinatesOf :: "gridline \<Rightarrow> lnglat list" where
  "coordinatesOf item = [fst item, snd item]"

definition createGridLinesSource :: "gridline list \<Rightarrow> gridline list \<Rightarrow> FeatureCollection" where
  "createGridLinesSource lngLines latLines =
     (if lngLines = [] \<or> latLines = [] then EMPTY_GEOSJON
      else map (\<lambda>item. lineFeature (coordinatesOf item)) lngLines
           @ map (\<lambda>item. lineFeature (coordinatesOf item)) latLines)"

subsection \<open>createTickLinesSource\<close>

text \<open>
  Modelled from the spec: \<^verbatim>\<open>vec2.rotate(out, a, b, rad)\<close> belongs to the gl-matrix
  library, which is not in the repository; it is the standard 2D rotation of \<open>a\<close> about
  the origin \<open>b\<close> by \<open>rad\<close> radians.
\<close>

definition vec2_rotate :: "real \<times> real \<Rightarrow> real \<times> real \<Rightarrow> real \<Rightarrow> real \<times> real" where
  "vec2_rotate a b rad =
     (let p0 = fst a - fst b; p1 = snd a - snd b
      in (p0 * cos rad - p1 * sin rad + fst b, p0 * sin rad + p1 * cos rad + snd b))"

text \<open>
  The inner function \<^verbatim>\<open>createTickLine\<close>; both branches on \<^verbatim>\<open>xAxis\<close> add the offset
  to the projected point in the same way.
\<close>

definition createTickLine :: "Mapbox \<Rightarrow> lnglat \<Rightarrow> real \<times> real \<Rightarrow> bool \<Rightarrow> Feature" where
  "createTickLine m lnglat offset xAxis =
     (let point = project m lnglat;
          point' = (if xAxis then (fst point + fst offset, snd point + snd offset)
                    else (fst point + fst offset, snd point + snd offset));
          lnglat2 = unproject m point'
      in lineFeature [lnglat, (fst lnglat2, snd lnglat2)])"

definition createTickLinesSource ::
  "gridline list \<Rightarrow> gridline list \<Rightarrow> Mapbox option \<Rightarrow> real \<Rightarrow> FeatureCollection" where
  "createTickLinesSource lngLines latLines mp tickLen0 =
     (case mp of
        None \<Rightarrow> EMPTY_GEOSJON
      | Some m \<Rightarrow>
          if lngLines = [] \<or> latLines = [] then EMPTY_GEOSJON
          else
            (let tickLen = (if tickLen0 = 0 then 5 else tickLen0);
                 rad = bearing m * pi / 180;
                 lngOffset = vec2_rotate (0, tickLen) (0, 0) rad;
                 latOffset = vec2_rotate (tickLen, 0) (0, 0) rad
             in concat (map (\<lambda>item.
                    [createTickLine m (fst item) (- fst lngOffset, snd lngOffset) False,
                     createTickLine m (snd item) (fst lngOffset, - snd lngOffset) False])
                  lngLines)
                @ concat (map (\<lambda>item.
                    [createTickLine m (fst item) (- fst latOffset, snd latOffset) True,
                     createTickLine m (snd item) (fst latOffset, - snd latOffset) True])
                  latLines)))"

text \<open>
  For stating what a tick is: the segment from a point to the point whose screen
  position lies a pixel offset away from the point's own.
\<close>

definition tickSegment :: "Mapbox \<Rightarrow> lnglat \<Rightarrow> real \<times> real \<Rightarrow> Feature" where
  "tickSegment m p off =
     lineFeature [p, unproject m (fst (project m p) + fst off, snd (project m p) + snd off)]"

subsection \<open>createBorderLinesSource\<close>

definition createBorderLinesSource :: "Bounds option \<Rightarrow> FeatureCollection" where
  "createBorderLinesSource bnds =
     (case bnds of
        None \<Rightarrow> EMPTY_GEOSJON
      | Some b \<Rightarrow>
          [lineFeature [(west b, south b), (east b, south b), (east b, north b),
                        (west b, north b), (west b, south b)]])"

subsection \<open>createLabelPointsSource\<close>

text \<open>
  The inner function \<^verbatim>\<open>createPoint\<close>. It draws the label, takes a fresh icon id from
  the counter and registers the image with the host, so the counter and the map go in
  and come out. When \<^verbatim>\<open>drawLabel\<close> throws, nothing has been changed yet. The font is
  the tuple family, size, colour, weight read from \<^verbatim>\<open>labelStyle\<close> with its defaults.
\<close>

definition createPoint ::
  "Browser \<Rightarrow> string \<Rightarrow> string \<times> real \<times> string \<times> string \<Rightarrow>
   lnglat \<Rightarrow> real \<times> real \<Rightarrow> bool \<Rightarrow> string \<Rightarrow> nat \<times> Mapbox \<Rightarrow>
   error + Feature \<times> nat \<times> Mapbox" where
  "createPoint env labelFormat fnt lnglat offset xAxis textAnchor st =
     (case st of (c, m) \<Rightarrow>
      case fnt of (fontFamily', fontSize', color', fontWeight') \<Rightarrow>
      let point = project m lnglat;
          point' = (fst point + fst offset, snd point + snd offset);
          isLng = (if xAxis then False else True);
          rot = (if xAxis then - 90 else 0);
          num = (if xAxis then snd lnglat else fst lnglat);
          lnglat2 = unproject m point';
          lbl = createlabelFormatter num isLng labelFormat
      in (case drawLabel env lbl fontFamily' fontSize' color' fontWeight' of
            Inl e \<Rightarrow> Inl e
          | Inr imageData \<Rightarrow>
              (case makeIconId c of (iconId, c') \<Rightarrow>
               let m' = (if hasImage m iconId then updateImage m iconId imageData
                         else addImage m iconId imageData)
               in Inr (\<lparr>properties = Some \<lparr>label = lbl, rotate_deg = rot,
                                             anchor = textAnchor, icon = iconId\<rparr>,
                        geometry = Point (fst lnglat2, snd lnglat2)\<rparr>, c', m'))))"

text \<open>
  One \<^verbatim>\<open>forEach\<close> over a list of grid lines: for each line a point at its first end
  with offset \<open>o0\<close> and anchor \<open>a0\<close>, then one at its second end with \<open>o1\<close> and \<open>a1\<close>,
  both pushed onto \<^verbatim>\<open>features\<close>. An exception leaves the counter and the map as the
  points before it made them.
\<close>

fun labelLoop ::
  "(lnglat \<Rightarrow> real \<times> real \<Rightarrow> string \<Rightarrow> nat \<times> Mapbox \<Rightarrow> error + Feature \<times> nat \<times> Mapbox) \<Rightarrow>
   real \<times> real \<Rightarrow> string \<Rightarrow> real \<times> real \<Rightarrow> string \<Rightarrow>
   gridline list \<Rightarrow> Feature list \<Rightarrow> nat \<times> Mapbox \<Rightarrow>
   error \<times> nat \<times> Mapbox + Feature list \<times> nat \<times> Mapbox" where
  "labelLoop mk o0 a0 o1 a1 [] features st = Inr (features, st)"
| "labelLoop mk o0 a0 o1 a1 (item # items) features st =
     (case mk (fst item) o0 a0 st of
        Inl e \<Rightarrow> Inl (e, st)
      | Inr (f0, st0) \<Rightarrow>
          (case mk (snd item) o1 a1 st0 of
             Inl e \<Rightarrow> Inl (e, st0)
           | Inr (f1, st1) \<Rightarrow> labelLoop mk o0 a0 o1 a1 items (features @ [f0, f1]) st1))"

definition labelFont :: "LabelStyle \<Rightarrow> string \<times> real \<times> string \<times> string" where
  "labelFont sty =
     (case fontFamily sty of None \<Rightarrow> ''sans-serif'' | Some f \<Rightarrow> f,
      case fontSize sty of None \<Rightarrow> 16 | Some z \<Rightarrow> z,
      case color sty of None \<Rightarrow> ''#000000'' | Some c \<Rightarrow> c,
      case fontWeight sty of None \<Rightarrow> ''normal'' | Some w \<Rightarrow> w)"

definition createLabelPointsSource ::
  "Browser \<Rightarrow> string \<Rightarrow> LabelStyle \<Rightarrow> gridline list \<Rightarrow> gridline list \<Rightarrow>
   Mapbox option \<Rightarrow> real \<Rightarrow> nat \<Rightarrow>
   error \<times> nat \<times> Mapbox + FeatureCollection \<times> nat \<times> Mapbox option" where
  "createLabelPointsSource env labelFormat sty lngLines latLines mp tickLen0 c =
     (case mp of
        None \<Rightarrow> Inr (EMPTY_GEOSJON, c, None)
      | Some m \<Rightarrow>
          if lngLines = [] \<or> latLines = [] then Inr (EMPTY_GEOSJON, c, Some m)
          else
            (let tickLen = (if tickLen0 = 0 then 5 else tickLen0);
                 mk = (\<lambda>lnglat offset textAnchor.
                         createPoint env labelFormat (labelFont sty) lnglat offset False textAnchor);
                 mkX = (\<lambda>lnglat offset textAnchor.
                         createPoint env labelFormat (labelFont sty) lnglat offset True textAnchor);
                 rad = bearing m * pi / 180;
                 lngOffset = vec2_rotate (0, tickLen) (0, 0) rad;
                 latOffset = vec2_rotate (tickLen, 0) (0, 0) rad
             in case labelLoop mk (- fst lngOffset, snd lngOffset) ''top''
                       (fst lngOffset, - snd lngOffset) ''bottom'' lngLines [] (c, m) of
                  Inl err \<Rightarrow> Inl err
                | Inr (features1, st1) \<Rightarrow>
                    (case labelLoop mkX (- fst latOffset, snd latOffset) ''bottom''
                            (fst latOffset, - snd latOffset) ''top'' latLines features1 st1 of
                       Inl err \<Rightarrow> Inl err
                     | Inr (features2, c2, m2) \<Rightarrow> Inr (features2, c2, Some m2))))"

subsection \<open>addLayers, update, addTo\<close>

text \<open>
  Each of the four parts of \<^verbatim>\<open>addLayers\<close> does the same with its id: when the flag is
  set, \<^verbatim>\<open>setData\<close> on the source if \<^verbatim>\<open>getSource\<close> finds one and \<^verbatim>\<open>addSource\<close>
  otherwise, then \<^verbatim>\<open>addLayer\<close> unless \<^verbatim>\<open>getLayer\<close> finds one; when the flag is not set,
  \<^verbatim>\<open>removeSource\<close> if there is a source and then \<^verbatim>\<open>removeLayer\<close> if there is a layer.
\<close>

definition showPart :: "Mapbox \<Rightarrow> string \<Rightarrow> FeatureCollection \<Rightarrow> Layer \<Rightarrow> Mapbox" where
  "showPart m k geojson lyr =
     (let m1 = (if getSource m k \<noteq> None then setData m k geojson else addSource m k geojson)
      in if getLayer m1 k = None then addLayer m1 lyr else m1)"

definition hidePart :: "Mapbox \<Rightarrow> string \<Rightarrow> Mapbox" where
  "hidePart m k =
     (let m1 = (if getSource m k \<noteq> None then removeSource m k else m)
      in if getLayer m1 k \<noteq> None then removeLayer m1 k else m1)"

text \<open>The four parts of \<^verbatim>\<open>addLayers\<close>, in the order the code runs them.\<close>

definition gridPart ::
  "GraticuleLayer \<Rightarrow> LayerIDs \<Rightarrow> gridline list \<Rightarrow> gridline list \<Rightarrow> Mapbox \<Rightarrow> Mapbox" where
  "gridPart g i lngLines latLines m =
     (if showGrid g then
        showPart m (grid_id i) (createGridLinesSource lngLines latLines)
          (createLayer (minZoom g) (maxZoom g) (grid_id i) ''line'' (Stroke (gridStyle g)))
      else hidePart m (grid_id i))"

definition tickPart ::
  "GraticuleLayer \<Rightarrow> LayerIDs \<Rightarrow> gridline list \<Rightarrow> gridline list \<Rightarrow> Mapbox \<Rightarrow> Mapbox" where
  "tickPart g i lngLines latLines m =
     (if showTick g then
        showPart m (tick_id i) (createTickLinesSource lngLines latLines (Some m) (tickLength g))
          (createLayer (minZoom g) (maxZoom g) (tick_id i) ''line'' (Stroke (tickStyle g)))
      else hidePart m (tick_id i))"

definition borderPart :: "GraticuleLayer \<Rightarrow> LayerIDs \<Rightarrow> Mapbox \<Rightarrow> Mapbox" where
  "borderPart g i m =
     (if showBorder g then
        showPart m (border_id i) (createBorderLinesSource (bounds g))
          (createLayer (minZoom g) (maxZoom g) (border_id i) ''line'' (Stroke (borderStyle g)))
      else hidePart m (border_id i))"

text \<open>
  The label part passes the map on to \<^verbatim>\<open>createLabelPointsSource\<close>, which registers the
  images in it, and goes on with the same map. An exception from drawing a label ends
  it before the label source is touched.
\<close>

definition labelPart ::
  "Browser \<Rightarrow> GraticuleLayer \<Rightarrow> LayerIDs \<Rightarrow> gridline list \<Rightarrow> gridline list \<Rightarrow>
   nat \<times> Mapbox \<Rightarrow> error \<times> nat \<times> Mapbox + nat \<times> Mapbox" where
  "labelPart env g i lngLines latLines st =
     (case st of (c, m) \<Rightarrow>
      if showLabel g then
        (case createLabelPointsSource env (labelFormatter g) (labelStyle g) lngLines latLines
                (Some m) (tickLength g) c of
           Inl err \<Rightarrow> Inl err
         | Inr (labelGeoJSON, c', mp) \<Rightarrow>
             Inr (c', showPart (case mp of Some m' \<Rightarrow> m' | None \<Rightarrow> m) (label_id i)
                        labelGeoJSON
                        (createLayer (minZoom g) (maxZoom g) (label_id i) ''symbol''
                           (Label (labelStyle g)))))
      else Inr (c, hidePart m (label_id i)))"

text \<open>
  \<^verbatim>\<open>addLayers\<close>. An exception leaves the state as it is at the throw: \<open>Inl (e, w)\<close> is
  error \<open>e\<close> in state \<open>w\<close>. The outer option is \<^const>\<open>None\<close> when \<^verbatim>\<open>computeGrid\<close> does not
  return. A \<^verbatim>\<open>null\<close> map makes the first \<^verbatim>\<open>this._map.getSource\<close> a \<^verbatim>\<open>TypeError\<close>, after
  the ids were initialised.
\<close>

definition syncLayers ::
  "Browser \<Rightarrow> World \<Rightarrow> gridline list \<Rightarrow> gridline list \<Rightarrow> error \<times> World + World" where
  "syncLayers env w lngLines latLines =
     (case initLayersId (layerIDs (glayer w)) (idCounter w) of
        (None, c1) \<Rightarrow>
          Inl (TypeError, w\<lparr>idCounter := c1, glayer := (glayer w)\<lparr>layerIDs := None\<rparr>\<rparr>)
      | (Some i, c1) \<Rightarrow>
          (case map_ref (glayer w) of
             None \<Rightarrow>
               Inl (TypeError,
                    w\<lparr>idCounter := c1, glayer := (glayer w)\<lparr>layerIDs := Some i\<rparr>\<rparr>)
           | Some m \<Rightarrow>
               (case labelPart env (glayer w) i lngLines latLines
                       (c1, borderPart (glayer w) i
                              (tickPart (glayer w) i lngLines latLines
                                 (gridPart (glayer w) i lngLines latLines m))) of
                  Inl (e, c2, m') \<Rightarrow>
                    Inl (e, w\<lparr>idCounter := c2,
                              glayer := (glayer w)\<lparr>layerIDs := Some i, map_ref := Some m'\<rparr>\<rparr>)
                | Inr (c2, m') \<Rightarrow>
                    Inr (w\<lparr>idCounter := c2,
                           glayer := (glayer w)\<lparr>layerIDs := Some i, map_ref := Some m'\<rparr>\<rparr>))))"

definition addLayers :: "Browser \<Rightarrow> World \<Rightarrow> (error \<times> World + World) option" where
  "addLayers env w =
     (case computeGrid (bounds (glayer w)) (intervalUnit (glayer w)) (interval (glayer w)) of
        None \<Rightarrow> None
      | Some (Inl e) \<Rightarrow> Some (Inl (e, w))
      | Some (Inr (lngLines, latLines)) \<Rightarrow> Some (syncLayers env w lngLines latLines))"

definition update :: "Browser \<Rightarrow> World \<Rightarrow> (error \<times> World + World) option" where
  "update env w = addLayers env w"

definition addTo :: "Browser \<Rightarrow> World \<Rightarrow> Mapbox option \<Rightarrow> (error \<times> World + World) option" where
  "addTo env w mp =
     (case mp of
        Some m \<Rightarrow> addLayers env (w\<lparr>glayer := (glayer w)\<lparr>map_ref := Some m\<rparr>\<rparr>)
      | None \<Rightarrow> Some (Inl (InvalidHostError, w)))"

section \<open>A small configuration\<close>

text \<open>
  The defaults of the source, and the layer the constructor builds from the options
  \<^verbatim>\<open>{ showGrid: true, bounds: [[7, 7], [13, 13]] }\<close>: one multiple of the interval 10 in
  each axis. The host shows ten pixels per degree with the screen's y axis pointing down;
  the browser measures eight pixels per character.
\<close>

definition defaultLabelStyle :: LabelStyle where
  "defaultLabelStyle =
     \<lparr>color = Some ''#000000'', fontFamily = Some ''sans-serif'', fontSize = Some 16,
      fontWeight = Some ''normal'', rotateStyle = Some 0, rotationAlignment = Some ''map'',
      allowOverlap = Some True\<rparr>"

definition defaultStrokeStyle :: StrokeStyle where
  "defaultStrokeStyle =
     \<lparr>lineColor = Some ''#B4C3D1'', lineCap = Some ''butt'', lineJoin = Some ''miter'',
      lineDasharray = Some [4, 4], lineWidth = Some 1, lineOpacity = Some 1\<rparr>"

definition defaultStrokeStyleTick :: StrokeStyle where
  "defaultStrokeStyleTick =
     \<lparr>lineColor = Some ''#000000'', lineCap = Some ''butt'', lineJoin = Some ''miter'',
      lineDasharray = None, lineWidth = Some 2, lineOpacity = Some 1\<rparr>"

definition demoLayer :: GraticuleLayer where
  "demoLayer =
     \<lparr>showLabel = True, showTick = True, showBorder = True, tickLength = 5, showGrid = True,
      intervalUnit = ''d'', interval = 10,
      bounds = Some \<lparr>west = 7, south = 7, east = 13, north = 13\<rparr>,
      minZoom = 0, maxZoom = 22, labelFormatter = ''second'',
      labelStyle = defaultLabelStyle, tickStyle = defaultStrokeStyleTick,
      gridStyle = defaultStrokeStyle, borderStyle = defaultStrokeStyleTick,
      map_ref = None, layerIDs = None\<rparr>"

definition demoMap :: Mapbox where
  "demoMap =
     \<lparr>bearing = 0, project = (\<lambda>p. (fst p * 10, - snd p * 10)),
      unproject = (\<lambda>q. (fst q / 10, - snd q / 10)),
      sources = [], layers = [], images = []\<rparr>"

definition demoBrowser :: Browser where
  "demoBrowser = \<lparr>devicePixelRatio = 1, measureText = (\<lambda>fnt txt. real (length txt) * 8)\<rparr>"

definition demoWorld :: World where
  "demoWorld = \<lparr>idCounter = initialId, glayer = demoLayer\<rparr>"

text \<open>Observations on an outcome: the state a call returned, and a source's data in it.\<close>

definition returned :: "(error \<times> World + World) option \<Rightarrow> World option" where
  "returned r = (case r of Some (Inr w) \<Rightarrow> Some w | _ \<Rightarrow> None)"

definition sourceData :: "string \<Rightarrow> World \<Rightarrow> FeatureCollection option" where
  "sourceData k w = (case map_ref (glayer w) of None \<Rightarrow> None | Some m \<Rightarrow> getSource m k)"

section \<open>Observations for the update contract\<close>

text \<open>A feature with the icon id of its properties blanked.\<close>

definition withoutIcon :: "Feature \<Rightarrow> Feature" where
  "withoutIcon f = f\<lparr>properties := map_option (\<lambda>p. p\<lparr>icon := []\<rparr>) (properties f)\<rparr>"

text \<open>
  The feature \<^verbatim>\<open>createPoint\<close> returns when the counter stands at \<open>c\<close>, as a function
  of the projection it uses; and the features of one \<^verbatim>\<open>forEach\<close> and of the whole label
  collection, with the counter values the successive points take.
\<close>

definition labelPoint ::
  "(lnglat \<Rightarrow> real \<times> real) \<Rightarrow> (real \<times> real \<Rightarrow> lnglat) \<Rightarrow> string \<Rightarrow>
   lnglat \<Rightarrow> real \<times> real \<Rightarrow> bool \<Rightarrow> string \<Rightarrow> nat \<Rightarrow> Feature" where
  "labelPoint prj unprj labelFormat lnglat offset xAxis textAnchor c =
     \<lparr>properties =
        Some \<lparr>label = createlabelFormatter (if xAxis then snd lnglat else fst lnglat)
                         (\<not> xAxis) labelFormat,
              rotate_deg = (if xAxis then - 90 else 0), anchor = textAnchor,
              icon = ''graticule-icon-'' @ showNat c\<rparr>,
      geometry = Point (unprj (fst (prj lnglat) + fst offset, snd (prj lnglat) + snd offset))\<rparr>"

fun labelPoints ::
  "(lnglat \<Rightarrow> real \<times> real) \<Rightarrow> (real \<times> real \<Rightarrow> lnglat) \<Rightarrow> string \<Rightarrow> bool \<Rightarrow>
   real \<times> real \<Rightarrow> string \<Rightarrow> real \<times> real \<Rightarrow> string \<Rightarrow> gridline list \<Rightarrow> nat \<Rightarrow> Feature list" where
  "labelPoints prj unprj labelFormat xAxis o0 a0 o1 a1 [] c = []"
| "labelPoints prj unprj labelFormat xAxis o0 a0 o1 a1 (item # items) c =
     labelPoint prj unprj labelFormat (fst item) o0 xAxis a0 c
     # labelPoint prj unprj labelFormat (snd item) o1 xAxis a1 (c + 1)
     # labelPoints prj unprj labelFormat xAxis o0 a0 o1 a1 items (c + 2)"

definition labelFeatures ::
  "real \<Rightarrow> (lnglat \<Rightarrow> real \<times> real) \<Rightarrow> (real \<times> real \<Rightarrow> lnglat) \<Rightarrow> string \<Rightarrow>
   gridline list \<Rightarrow> gridline list \<Rightarrow> real \<Rightarrow> nat \<Rightarrow> FeatureCollection" where
  "labelFeatures brg prj unprj labelFormat lngLines latLines tickLen0 c =
     (if lngLines = [] \<or> latLines = [] then []
      else
        (let tickLen = (if tickLen0 = 0 then 5 else tickLen0);
             rad = brg * pi / 180;
             lngOffset = vec2_rotate (0, tickLen) (0, 0) rad;
             latOffset = vec2_rotate (tickLen, 0) (0, 0) rad
         in labelPoints prj unprj labelFormat False (- fst lngOffset, snd lngOffset) ''top''
              (fst lngOffset, - snd lngOffset) ''bottom'' lngLines c
            @ labelPoints prj unprj labelFormat True (- fst latOffset, snd latOffset) ''bottom''
                (fst latOffset, - snd latOffset) ''top'' latLines (c + 2 * length lngLines)))"

text \<open>How many entries the host's registries hold under an id.\<close>

definition sourceCount :: "Mapbox \<Rightarrow> string \<Rightarrow> nat" where
  "sourceCount m k = length (filter (\<lambda>e. fst e = k) (sources m))"

definition layerCount :: "Mapbox \<Rightarrow> string \<Rightarrow> nat" where
  "layerCount m k = length (filter (\<lambda>e. fst e = k) (layers m))"

text \<open>
  The small configuration attached to its map, the state after one more \<^verbatim>\<open>update()\<close>
  of a state reached so far, and a source's data in such a state.
\<close>

definition demoAttached :: World where
  "demoAttached = \<lparr>idCounter = initialId, glayer = demoLayer\<lparr>map_ref := Some demoMap\<rparr>\<rparr>"

definition afterUpdate :: "Browser \<Rightarrow> World option \<Rightarrow> World option" where
  "afterUpdate env r = (case r of None \<Rightarrow> None | Some w \<Rightarrow> returned (update env w))"

definition sourceIn :: "string \<Rightarrow> World option \<Rightarrow> FeatureCollection option" where
  "sourceIn k r = (case r of None \<Rightarrow> None | Some w \<Rightarrow> sourceData k w)"

text \<open>Two host states that differ at most in their image cache.\<close>

definition onlyImagesChanged :: "Mapbox \<Rightarrow> Mapbox \<Rightarrow> bool" where
  "onlyImagesChanged m m' \<longleftrightarrow>
     bearing m' = bearing m \<and> project m' = project m \<and> unproject m' = unproject m \<and>
     sources m' = sources m \<and> layers m' = layers m"

section \<open>Properties of createlabelFormatter and drawLabel\<close>

lemma formatTag_hemisphere: "formatTag v isLng = hemisphereTag v isLng"
  by (simp add: formatTag_def hemisphereTag_def)

lemma createlabelFormatter_spec:
  "createlabelFormatter v isLng p =
     (if p = ''degree'' then
        showInt (specDegrees v) @ [degSign] @ hemisphereTag v isLng
      else if p = ''minute'' then
        showInt (specDegrees v) @ [degSign] @ showInt (specMinutes v) @ [minSign]
          @ hemisphereTag v isLng
      else
        showInt (specDegrees v) @ [degSign] @ showInt (specMinutes v) @ [minSign]
          @ showInt (specSeconds v) @ [secSign] @ hemisphereTag v isLng)"
  by (simp add: createlabelFormatter_def formatDegree_def formatTag_hemisphere
      specDegrees_def specMinutes_def specSeconds_def Let_def)

lemmas format_eval =
  createlabelFormatter_def formatDegree_def formatTag_def jsRem_def showInt_def showNat.simps
  digitChar_def Let_def



text \<open>
  Claim C6, as stated, fails: at the precision tag \<^verbatim>\<open>hour\<close>, for which the
  specification has a failure, the formatter returns the text of second precision.
\<close>

theorem createlabelFormatter_invalid_tag_counterexample:
  "specFormat (3126 / 100) False ''hour'' = None \<and>
   createlabelFormatter (3126 / 100) False ''hour''
     = ''31'' @ [degSign] @ ''15'' @ [minSign] @ ''36'' @ [secSign] @ ''N''"
  by (simp add: specFormat_def format_eval)

text \<open>
  Claim C6, amended. \<^verbatim>\<open>createlabelFormatter\<close> has no error condition: it is a total
  function of its three arguments, and a precision tag that is neither \<^verbatim>\<open>degree\<close> nor
  \<^verbatim>\<open>minute\<close> --- \<^verbatim>\<open>second\<close> or any other string --- gives the text of second precision.
\<close>

theorem createlabelFormatter_total:
  assumes "p \<noteq> ''degree''" and "p \<noteq> ''minute''"
  shows "createlabelFormatter v isLng p = createlabelFormatter v isLng ''second''"
  using assms by (simp add: createlabelFormatter_spec)

theorem createlabelFormatter_total_witness:
  "''day'' \<noteq> ''degree'' \<and> ''day'' \<noteq> ''minute'' \<and>
   createlabelFormatter (- 12073 / 100) True ''day''
     = ''120'' @ [degSign] @ ''43'' @ [minSign] @ ''48'' @ [secSign] @ ''W''"
proof -
  have "createlabelFormatter (- 12073 / 100) True ''second''
          = ''120'' @ [degSign] @ ''43'' @ [minSign] @ ''48'' @ [secSign] @ ''W''"
    by (simp add: format_eval)
  with createlabelFormatter_total[of "''day''" "- 12073 / 100" True]
  show ?thesis by simp
qed

text \<open>
  Claim C8, as stated, fails: for the three-character text \<^verbatim>\<open>10E\<close> at font size 16
  the canvas is 48 pixels wide, not \<open>max 256 48\<close>.
\<close>

theorem drawLabel_size_counterexample:
  "drawLabel demoBrowser ''10E'' ''sans-serif'' 16 ''#000000'' ''normal''
     = Inr \<lparr>canvasSize = 48, canvasStyleSize = 48, font = (''normal'', 16, ''sans-serif''),
            fillStyle = ''#000000'', fillText = ''10E'', fillTextY = 8,
            imageWidth = 24, imageHeight = 16\<rparr> \<and>
   max 256 (real (length ''10E'') * 16) = 256"
  by (simp add: drawLabel_def canvasSide_def textWidth_def integerPart_def demoBrowser_def
      Let_def)

text \<open>
  Claim C8, amended. \<^verbatim>\<open>drawLabel\<close> makes its square canvas 256 pixels wide for the
  empty text and \<open>text.length * fontSize\<close> pixels wide for any other text, scaled by the
  device pixel ratio (1 when the browser reports none). When the rounded measured width
  of the text and the integer part of the font size are both not zero, it returns the
  bitmap of the rectangle at the origin with that rounded width and the font size as
  height. Otherwise \<^verbatim>\<open>getImageData\<close> throws an \<^verbatim>\<open>IndexSizeError\<close> and nothing is
  returned; that is so for the empty text, whose measured width is 0, so the canvas of
  256 pixels is never read.
\<close>

theorem drawLabel_size:
  "canvasSide txt fs = (if txt = [] then 256 else real (length txt) * fs) \<and>
   (round (textWidth env (fw, fs, ff) txt) \<noteq> 0 \<and> integerPart fs \<noteq> 0 \<longrightarrow>
      (\<exists>img. drawLabel env txt ff fs col fw = Inr img \<and>
             canvasStyleSize img = real (length txt) * fs \<and>
             canvasSize img
               = real (length txt) * fs
                   * (if devicePixelRatio env = 0 then 1 else devicePixelRatio env) \<and>
             imageWidth img = round (measureText env (fw, fs, ff) txt) \<and>
             imageHeight img = fs)) \<and>
   (round (textWidth env (fw, fs, ff) txt) = 0 \<or> integerPart fs = 0 \<longrightarrow>
      drawLabel env txt ff fs col fw = Inl IndexSizeError) \<and>
   drawLabel env [] ff fs col fw = Inl IndexSizeError"
proof -
  have side: "canvasSide txt fs = (if txt = [] then 256 else real (length txt) * fs)"
    by (simp add: canvasSide_def)
  have ret: "\<exists>img. drawLabel env txt ff fs col fw = Inr img \<and>
               canvasStyleSize img = real (length txt) * fs \<and>
               canvasSize img
                 = real (length txt) * fs
                     * (if devicePixelRatio env = 0 then 1 else devicePixelRatio env) \<and>
               imageWidth img = round (measureText env (fw, fs, ff) txt) \<and>
               imageHeight img = fs"
    if "round (textWidth env (fw, fs, ff) txt) \<noteq> 0 \<and> integerPart fs \<noteq> 0"
  proof -
    from that have "txt \<noteq> []"
      by (auto simp add: textWidth_def)
    with that show ?thesis
      by (simp add: drawLabel_def canvasSide_def textWidth_def Let_def)
  qed
  have thr: "drawLabel env txt ff fs col fw = Inl IndexSizeError"
    if "round (textWidth env (fw, fs, ff) txt) = 0 \<or> integerPart fs = 0"
    using that by (auto simp add: drawLabel_def Let_def)
  have emp: "drawLabel env [] ff fs col fw = Inl IndexSizeError"
    by (simp add: drawLabel_def textWidth_def Let_def)
  from side ret thr emp show ?thesis
    by blast
qed

text \<open>
  At pixel ratio 2 the text \<^verbatim>\<open>10E\<close> of size 16 is drawn on a canvas of 96 device pixels
  and comes back 24 pixels wide; the empty text and a font size of one half throw.
\<close>

theorem drawLabel_size_witness:
  "round (textWidth (demoBrowser\<lparr>devicePixelRatio := 2\<rparr>) (''normal'', 16, ''sans-serif'') ''10E'') \<noteq> 0 \<and>
   integerPart 16 \<noteq> 0 \<and>
   drawLabel (demoBrowser\<lparr>devicePixelRatio := 2\<rparr>) ''10E'' ''sans-serif'' 16 ''#000000'' ''normal''
     = Inr \<lparr>canvasSize = 96, canvasStyleSize = 48, font = (''normal'', 16, ''sans-serif''),
            fillStyle = ''#000000'', fillText = ''10E'', fillTextY = 8,
            imageWidth = 24, imageHeight = 16\<rparr> \<and>
   (round (textWidth demoBrowser (''normal'', 1 / 2, ''sans-serif'') ''10E'') = 0 \<or>
    integerPart (1 / 2) = 0) \<and>
   drawLabel demoBrowser ''10E'' ''sans-serif'' (1 / 2) ''#000000'' ''normal'' = Inl IndexSizeError \<and>
   canvasSide [] 16 = 256 \<and>
   drawLabel demoBrowser [] ''sans-serif'' 16 ''#000000'' ''normal'' = Inl IndexSizeError"
proof -
  have w: "round (textWidth (demoBrowser\<lparr>devicePixelRatio := 2\<rparr>)
             (''normal'', 16, ''sans-serif'') ''10E'') = 24"
    by (simp add: textWidth_def demoBrowser_def)
  have h: "integerPart 16 = 16" "integerPart (1 / 2) = 0"
    by (simp_all add: integerPart_def)
  from drawLabel_size[of "''10E''" 16 "demoBrowser\<lparr>devicePixelRatio := 2\<rparr>" "''normal''"
      "''sans-serif''" "''#000000''"] w h
  obtain img where img:
    "drawLabel (demoBrowser\<lparr>devicePixelRatio := 2\<rparr>) ''10E'' ''sans-serif'' 16 ''#000000'' ''normal''
       = Inr img"
    "canvasSize img = 96" "imageWidth img = 24" "imageHeight img = 16"
    by (auto simp add: demoBrowser_def)
  have full: "drawLabel (demoBrowser\<lparr>devicePixelRatio := 2\<rparr>) ''10E'' ''sans-serif'' 16 ''#000000'' ''normal''
     = Inr \<lparr>canvasSize = 96, canvasStyleSize = 48, font = (''normal'', 16, ''sans-serif''),
            fillStyle = ''#000000'', fillText = ''10E'', fillTextY = 8,
            imageWidth = 24, imageHeight = 16\<rparr>"
    by (simp add: drawLabel_def canvasSide_def textWidth_def integerPart_def demoBrowser_def
        Let_def)
  from drawLabel_size[of "''10E''" "1 / 2" demoBrowser "''normal''" "''sans-serif''"
      "''#000000''"] h
  have half: "drawLabel demoBrowser ''10E'' ''sans-serif'' (1 / 2) ''#000000'' ''normal''
                = Inl IndexSizeError"
    by simp
  from drawLabel_size[of "[]" 16 demoBrowser "''normal''" "''sans-serif''" "''#000000''"]
  have emp: "canvasSide [] 16 = 256"
    "drawLabel demoBrowser [] ''sans-serif'' 16 ''#000000'' ''normal'' = Inl IndexSizeError"
    by simp_all
  from w h full half emp show ?thesis
    by simp
qed

section \<open>Properties of the source builders\<close>

text \<open>
  Claim C9. If the longitude line list or the latitude line list is empty, then
  \<^verbatim>\<open>createGridLinesSource\<close>, \<^verbatim>\<open>createTickLinesSource\<close> and \<^verbatim>\<open>createLabelPointsSource\<close>
  each return the empty feature collection, whatever the other list holds; the label
  builder then draws no label, takes no icon id and registers no image.
\<close>

theorem empty_axis_empty_collections:
  assumes "lngLines = [] \<or> latLines = []"
  shows "createGridLinesSource lngLines latLines = EMPTY_GEOSJON \<and>
         createTickLinesSource lngLines latLines mp tickLen = EMPTY_GEOSJON \<and>
         createLabelPointsSource env fmt sty lngLines latLines mp tickLen c
           = Inr (EMPTY_GEOSJON, c, mp)"
  using assms
  by (cases mp)
     (auto simp add: createGridLinesSource_def createTickLinesSource_def
        createLabelPointsSource_def)

text \<open>
  Bounds \<^verbatim>\<open>[[9, 1], [11, 2]]\<close> with interval 10 have one longitude line and no latitude
  line; the three collections built from them have no feature.
\<close>

theorem empty_axis_empty_collections_witness:
  "computeGrid (Some \<lparr>west = 9, south = 1, east = 11, north = 2\<rparr>) ''d'' 10
     = Some (Inr ([((10, 1), (10, 2))], [])) \<and>
   ([((10, 1), (10, 2))] = [] \<or> ([] :: gridline list) = []) \<and>
   createGridLinesSource [((10, 1), (10, 2))] [] = [] \<and>
   createTickLinesSource [((10, 1), (10, 2))] [] (Some demoMap) 5 = [] \<and>
   createLabelPointsSource demoBrowser ''second'' defaultLabelStyle
       [((10, 1), (10, 2))] [] (Some demoMap) 5 5 = Inr ([], 5, Some demoMap)"
proof -
  have "computeGrid (Some \<lparr>west = 9, south = 1, east = 11, north = 2\<rparr>) ''d'' 10
          = Some (Inr ([((10, 1), (10, 2))], []))"
    by code_simp
  then show ?thesis
    using empty_axis_empty_collections[of "[((10, 1), (10, 2))]" "[]" "Some demoMap" 5
        demoBrowser "''second''" defaultLabelStyle 5]
    by (simp add: EMPTY_GEOSJON_def)
qed

section \<open>Properties of uniqueId and the generated ids\<close>

lemma digitChar_inj:
  assumes "d < 10" "e < 10" "digitChar d = digitChar e"
  shows "d = e"
proof -
  have "distinct ''0123456789''" by simp
  moreover have "d < length ''0123456789''" "e < length ''0123456789''"
    using assms by simp_all
  ultimately show ?thesis
    using assms(3) unfolding digitChar_def by (simp only: nth_eq_iff_index_eq)
qed

lemma showNat_not_Nil: "showNat n \<noteq> []"
  by (subst showNat.simps) simp

lemma showNat_small: "n < 10 \<Longrightarrow> showNat n = [digitChar n]"
  by (subst showNat.simps) simp

lemma showNat_large:
  "\<not> n < 10 \<Longrightarrow> showNat n = showNat (n div 10) @ [digitChar (n mod 10)]"
  by (subst showNat.simps) simp

lemma showNat_inj: "showNat a = showNat b \<Longrightarrow> a = b"
proof (induction a arbitrary: b rule: showNat.induct)
  case (1 a)
  show ?case
  proof (cases "a < 10")
    case a: True
    show ?thesis
    proof (cases "b < 10")
      case True
      with a "1.prems" show ?thesis
        by (simp add: showNat_small digitChar_inj)
    next
      case False
      with a "1.prems" showNat_not_Nil[of "b div 10"] show ?thesis
        by (simp add: showNat_small showNat_large)
    qed
  next
    case a: False
    show ?thesis
    proof (cases "b < 10")
      case True
      with a "1.prems" showNat_not_Nil[of "a div 10"] show ?thesis
        by (simp add: showNat_small showNat_large)
    next
      case False
      with a "1.prems" have eq: "showNat (a div 10) = showNat (b div 10)"
        and dg: "digitChar (a mod 10) = digitChar (b mod 10)"
        by (simp_all add: showNat_large)
      from "1.IH"[OF a eq] have "a div 10 = b div 10" .
      moreover from dg have "a mod 10 = b mod 10"
        by (intro digitChar_inj) simp_all
      ultimately show ?thesis
        by (metis div_mult_mod_eq)
    qed
  qed
qed

text \<open>The five prefixes an id can start with; none is the beginning of another.\<close>

lemma prefixed_id_inj:
  assumes "p \<in> {''grid_'', ''tick_'', ''border_'', ''label_'', ''graticule-icon-''}"
    and "q \<in> {''grid_'', ''tick_'', ''border_'', ''label_'', ''graticule-icon-''}"
    and "p @ showNat a = q @ showNat b"
  shows "p = q \<and> a = b"
  using assms by (auto dest: showNat_inj)

lemma uniqueIds_upt: "uniqueIds n c = [c ..< c + n]"
  by (induction n arbitrary: c) (simp_all add: uniqueId_def upt_conv_Cons)

lemma initLayersId_fresh:
  "initLayersId None c =
     (Some \<lparr>grid_id = ''grid_'' @ showNat c, tick_id = ''tick_'' @ showNat (c + 1),
            border_id = ''border_'' @ showNat (c + 2), label_id = ''label_'' @ showNat (c + 3)\<rparr>,
      c + 4)"
  by (simp add: initLayersId_def uniqueId_def eval_nat_numeral)

lemma makeIconId_eq: "makeIconId c = (''graticule-icon-'' @ showNat c, c + 1)"
  by (simp add: makeIconId_def uniqueId_def)

lemma initLayersId_kept: "initLayersId (Some i) c = (Some i, c)"
  by (simp add: initLayersId_def)

lemma generated_shape:
  assumes "x \<in> set (generated cs c)"
  shows "\<exists>p n. p \<in> {''grid_'', ''tick_'', ''border_'', ''label_'', ''graticule-icon-''} \<and>
               c \<le> n \<and> x = p @ showNat n"
  using assms
proof (induction cs arbitrary: c)
  case Nil
  then show ?case by simp
next
  case (Cons call cs)
  show ?case
  proof (cases call)
    case InitLayersId
    with Cons.prems consider
        "x = ''grid_'' @ showNat c" | "x = ''tick_'' @ showNat (c + 1)"
      | "x = ''border_'' @ showNat (c + 2)" | "x = ''label_'' @ showNat (c + 3)"
      | "x \<in> set (generated cs (c + 4))"
      by (auto simp add: initLayersId_fresh)
    then show ?thesis
    proof cases
      case 5
      from Cons.IH[OF 5] obtain p n where
        "p \<in> {''grid_'', ''tick_'', ''border_'', ''label_'', ''graticule-icon-''}"
        "c + 4 \<le> n" "x = p @ showNat n" by blast
      then have "p \<in> {''grid_'', ''tick_'', ''border_'', ''label_'', ''graticule-icon-''} \<and>
                 c \<le> n \<and> x = p @ showNat n" by simp
      then show ?thesis by blast
    next
      case 1
      then have "''grid_'' \<in> {''grid_'', ''tick_'', ''border_'', ''label_'', ''graticule-icon-''} \<and>
                 c \<le> c \<and> x = ''grid_'' @ showNat c" by simp
      then show ?thesis by blast
    next
      case 2
      then have "''tick_'' \<in> {''grid_'', ''tick_'', ''border_'', ''label_'', ''graticule-icon-''} \<and>
                 c \<le> c + 1 \<and> x = ''tick_'' @ showNat (c + 1)" by simp
      then show ?thesis by blast
    next
      case 3
      then have "''border_'' \<in> {''grid_'', ''tick_'', ''border_'', ''label_'', ''graticule-icon-''} \<and>
                 c \<le> c + 2 \<and> x = ''border_'' @ showNat (c + 2)" by simp
      then show ?thesis by blast
    next
      case 4
      then have "''label_'' \<in> {''grid_'', ''tick_'', ''border_'', ''label_'', ''graticule-icon-''} \<and>
                 c \<le> c + 3 \<and> x = ''label_'' @ showNat (c + 3)" by simp
      then show ?thesis by blast
    qed
  next
    case MakeIconId
    with Cons.prems consider "x = ''graticule-icon-'' @ showNat c"
      | "x \<in> set (generated cs (c + 1))"
      by (auto simp add: makeIconId_eq)
    then show ?thesis
    proof cases
      case 1
      then have "''graticule-icon-'' \<in> {''grid_'', ''tick_'', ''border_'', ''label_'', ''graticule-icon-''} \<and>
                 c \<le> c \<and> x = ''graticule-icon-'' @ showNat c" by simp
      then show ?thesis by blast
    next
      case 2
      from Cons.IH[OF 2] obtain p n where
        "p \<in> {''grid_'', ''tick_'', ''border_'', ''label_'', ''graticule-icon-''}"
        "c + 1 \<le> n" "x = p @ showNat n" by blast
      then have "p \<in> {''grid_'', ''tick_'', ''border_'', ''label_'', ''graticule-icon-''} \<and>
                 c \<le> n \<and> x = p @ showNat n" by simp
      then show ?thesis by blast
    qed
  qed
qed

lemma fresh_not_generated:
  assumes "p \<in> {''grid_'', ''tick_'', ''border_'', ''label_'', ''graticule-icon-''}" and "a < c"
  shows "p @ showNat a \<notin> set (generated cs c)"
proof
  assume "p @ showNat a \<in> set (generated cs c)"
  from generated_shape[OF this] obtain q n where
    q: "q \<in> {''grid_'', ''tick_'', ''border_'', ''label_'', ''graticule-icon-''}"
    and n: "c \<le> n" and eq: "p @ showNat a = q @ showNat n" by blast
  from prefixed_id_inj[OF assms(1) q eq] have "a = n" by simp
  with n assms(2) show False by simp
qed

lemma generated_distinct: "distinct (generated cs c)"
proof (induction cs arbitrary: c)
  case Nil
  then show ?case by simp
next
  case (Cons call cs)
  show ?case
  proof (cases call)
    case InitLayersId
    have "''grid_'' @ showNat c \<notin> set (generated cs (c + 4))"
      "''tick_'' @ showNat (c + 1) \<notin> set (generated cs (c + 4))"
      "''border_'' @ showNat (c + 2) \<notin> set (generated cs (c + 4))"
      "''label_'' @ showNat (c + 3) \<notin> set (generated cs (c + 4))"
      by (rule fresh_not_generated; simp)+
    with InitLayersId Cons.IH[of "c + 4"] show ?thesis
      by (simp add: initLayersId_fresh)
  next
    case MakeIconId
    have "''graticule-icon-'' @ showNat c \<notin> set (generated cs (c + 1))"
      by (rule fresh_not_generated; simp)
    with MakeIconId Cons.IH[of "c + 1"] show ?thesis
      by (simp add: makeIconId_eq)
  qed
qed

text \<open>
  Claim C10. \<^verbatim>\<open>uniqueId\<close> returns the counter and adds one to it, so from the initial
  counter its first \<open>n\<close> results are 1, 2, \<open>\<dots>\<close>, \<open>n\<close>, and nothing in the code sets the
  counter back. The four ids \<^verbatim>\<open>initLayersId\<close> creates are pairwise distinct, and in any
  sequence of id-generating calls, from any counter value, all the layer ids and icon
  ids generated are pairwise distinct, so each differs from all generated before it.
\<close>

theorem generated_ids_distinct:
  "uniqueId c = (c, c + 1) \<and>
   uniqueIds n initialId = [1 ..< Suc n] \<and>
   sorted_wrt (<) (uniqueIds n c) \<and>
   (case initLayersId None c of
      (Some i, c') \<Rightarrow> distinct [grid_id i, tick_id i, border_id i, label_id i] \<and> c' = c + 4
    | (None, c') \<Rightarrow> False) \<and>
   distinct (generated calls c)"
  by (simp add: uniqueId_def uniqueIds_upt initialId_def initLayersId_fresh generated_distinct)

text \<open>
  From the initial counter: a layer's ids, two icons, then the ids of a second layer.
\<close>

theorem generated_ids_distinct_witness:
  "generated [InitLayersId, MakeIconId, MakeIconId, InitLayersId] initialId
     = [''grid_1'', ''tick_2'', ''border_3'', ''label_4'', ''graticule-icon-5'',
        ''graticule-icon-6'', ''grid_7'', ''tick_8'', ''border_9'', ''label_10''] \<and>
   distinct (generated [InitLayersId, MakeIconId, MakeIconId, InitLayersId] initialId) \<and>
   uniqueIds 3 initialId = [1, 2, 3]"
proof -
  have "generated [InitLayersId, MakeIconId, MakeIconId, InitLayersId] initialId
     = [''grid_1'', ''tick_2'', ''border_3'', ''label_4'', ''graticule-icon-5'',
        ''graticule-icon-6'', ''grid_7'', ''tick_8'', ''border_9'', ''label_10'']"
    by (simp add: initialId_def initLayersId_def makeIconId_def uniqueId_def showNat.simps
        digitChar_def)
  moreover have "[1 ..< Suc 3] = [1, 2, 3 :: nat]"
    by (simp add: upt_conv_Cons)
  ultimately show ?thesis
    using generated_ids_distinct[of initialId 3 "[InitLayersId, MakeIconId, MakeIconId, InitLayersId]"]
    by simp
qed

section \<open>Properties of createTickLinesSource\<close>

lemma createTickLine_segment: "createTickLine m p off xAxis = tickSegment m p off"
  by (simp add: createTickLine_def tickSegment_def Let_def)

lemma createTickLinesSource_segments:
  assumes "lngLines \<noteq> []" and "latLines \<noteq> []"
    and "t = (if tickLen = 0 then 5 else tickLen)"
    and "rad = bearing m * pi / 180"
    and "v = vec2_rotate (0, t) (0, 0) rad"
    and "h = vec2_rotate (t, 0) (0, 0) rad"
  shows "createTickLinesSource lngLines latLines (Some m) tickLen =
           concat (map (\<lambda>item. [tickSegment m (fst item) (- fst v, snd v),
                                 tickSegment m (snd item) (fst v, - snd v)]) lngLines)
           @ concat (map (\<lambda>item. [tickSegment m (fst item) (- fst h, snd h),
                                   tickSegment m (snd item) (fst h, - snd h)]) latLines)"
  unfolding assms(3-6) using assms(1,2)
  by (simp add: createTickLinesSource_def createTickLine_segment Let_def)

lemma tick_offsets:
  assumes "v = vec2_rotate (0, t) (0, 0) rad" and "h = vec2_rotate (t, 0) (0, 0) rad"
  shows "(- fst v, snd v) = vec2_rotate (0, t) (0, 0) (- rad)"
    and "(fst v, - snd v) = vec2_rotate (0, - t) (0, 0) (- rad)"
    and "(- fst h, snd h) = vec2_rotate (- t, 0) (0, 0) (- rad)"
    and "(fst h, - snd h) = vec2_rotate (t, 0) (0, 0) (- rad)"
  unfolding assms by (simp_all add: vec2_rotate_def)

text \<open>
  Claim C7, as stated, fails. At bearing 30 and tick length 2 the base vector \<open>(0, 2)\<close>
  rotated by the bearing is \<open>v = (-1, sqrt 3)\<close>, and the first tick of the longitude
  line through \<open>(10, 7)\<close> is drawn with the offset \<open>(1, sqrt 3)\<close>: neither \<open>v\<close> nor its
  negation.
\<close>

theorem tick_offset_counterexample:
  "vec2_rotate (0, 2) (0, 0) (30 * pi / 180) = (- 1, sqrt 3) \<and>
   createTickLinesSource [((10, 7), (10, 13))] [((7, 10), (13, 10))]
       (Some (demoMap\<lparr>bearing := 30\<rparr>)) 2 ! 0
     = tickSegment (demoMap\<lparr>bearing := 30\<rparr>) (10, 7) (1, sqrt 3) \<and>
   tickSegment (demoMap\<lparr>bearing := 30\<rparr>) (10, 7) (1, sqrt 3)
     \<noteq> tickSegment (demoMap\<lparr>bearing := 30\<rparr>) (10, 7) (- 1, sqrt 3) \<and>
   tickSegment (demoMap\<lparr>bearing := 30\<rparr>) (10, 7) (1, sqrt 3)
     \<noteq> tickSegment (demoMap\<lparr>bearing := 30\<rparr>) (10, 7) (1, - sqrt 3)"
proof -
  have rad: "30 * pi / 180 = pi / 6" by simp
  have v: "vec2_rotate (0, 2) (0, 0) (30 * pi / 180) = (- 1, sqrt 3)"
    unfolding rad by (simp add: vec2_rotate_def sin_30 cos_30)
  have "createTickLinesSource [((10, 7), (10, 13))] [((7, 10), (13, 10))]
          (Some (demoMap\<lparr>bearing := 30\<rparr>)) 2 ! 0
        = tickSegment (demoMap\<lparr>bearing := 30\<rparr>) (10, 7)
            (- fst (vec2_rotate (0, 2) (0, 0) (30 * pi / 180)),
             snd (vec2_rotate (0, 2) (0, 0) (30 * pi / 180)))"
    by (simp add: createTickLinesSource_def createTickLine_segment Let_def)
  then have t: "createTickLinesSource [((10, 7), (10, 13))] [((7, 10), (13, 10))]
          (Some (demoMap\<lparr>bearing := 30\<rparr>)) 2 ! 0
        = tickSegment (demoMap\<lparr>bearing := 30\<rparr>) (10, 7) (1, sqrt 3)"
    unfolding v by simp
  have n1: "tickSegment (demoMap\<lparr>bearing := 30\<rparr>) (10, 7) (1, sqrt 3)
     \<noteq> tickSegment (demoMap\<lparr>bearing := 30\<rparr>) (10, 7) (- 1, sqrt 3)"
    by (simp add: tickSegment_def lineFeature_def demoMap_def)
  have n2: "tickSegment (demoMap\<lparr>bearing := 30\<rparr>) (10, 7) (1, sqrt 3)
     \<noteq> tickSegment (demoMap\<lparr>bearing := 30\<rparr>) (10, 7) (1, - sqrt 3)"
    by (simp add: tickSegment_def lineFeature_def demoMap_def)
  from v t n1 n2 show ?thesis by (intro conjI)
qed

text \<open>
  Claim C7, amended. When both line lists are non-empty and a map is given, the ticks
  are, line by line, the segment from the line's first end and the segment from its
  second end, each \<open>[endpoint, unproject (project endpoint + o)]\<close>. With \<open>v\<close> the base
  vector \<open>(0, tickLength)\<close> (longitude lines) or \<open>(tickLength, 0)\<close> (latitude lines)
  rotated by the bearing, \<open>o\<close> is \<open>(- v.x, v.y)\<close> at the first end and \<open>(v.x, - v.y)\<close> at
  the second. The two offsets are exact negations of each other; they are the base
  vector and its negation rotated by the negated bearing (for a latitude line the
  negation comes first). A tick length of 0 is replaced by 5.
\<close>

theorem tick_segments:
  assumes "lngLines \<noteq> []" and "latLines \<noteq> []"
    and "t = (if tickLen = 0 then 5 else tickLen)"
    and "rad = bearing m * pi / 180"
    and "v = vec2_rotate (0, t) (0, 0) rad"
    and "h = vec2_rotate (t, 0) (0, 0) rad"
  shows "createTickLinesSource lngLines latLines (Some m) tickLen =
           concat (map (\<lambda>item. [tickSegment m (fst item) (- fst v, snd v),
                                 tickSegment m (snd item) (fst v, - snd v)]) lngLines)
           @ concat (map (\<lambda>item. [tickSegment m (fst item) (- fst h, snd h),
                                   tickSegment m (snd item) (fst h, - snd h)]) latLines) \<and>
         (fst v, - snd v) = (- (- fst v), - snd v) \<and>
         (fst h, - snd h) = (- (- fst h), - snd h) \<and>
         (- fst v, snd v) = vec2_rotate (0, t) (0, 0) (- rad) \<and>
         (fst v, - snd v) = vec2_rotate (0, - t) (0, 0) (- rad) \<and>
         (- fst h, snd h) = vec2_rotate (- t, 0) (0, 0) (- rad) \<and>
         (fst h, - snd h) = vec2_rotate (t, 0) (0, 0) (- rad)"
  using createTickLinesSource_segments[OF assms] tick_offsets[OF assms(5,6)]
  by simp

text \<open>
  The small configuration turned to bearing 30 with tick length 2. The base vectors
  rotated by the bearing are \<open>v = (- 1, sqrt 3)\<close> and \<open>h = (sqrt 3, 1)\<close>; the four ticks
  are drawn with the mirrored offsets \<open>(1, sqrt 3)\<close>, \<open>(- 1, - sqrt 3)\<close>, \<open>(- sqrt 3, 1)\<close>
  and \<open>(sqrt 3, - 1)\<close>, none of which is \<open>v\<close>, \<open>h\<close> or a negation of them. At bearing
  90 the offsets are \<open>(2, 0)\<close>, \<open>(- 2, 0)\<close>, \<open>(0, 2)\<close> and \<open>(0, - 2)\<close>.
\<close>

theorem tick_segments_witness:
  "[((10, 7), (10, 13))] \<noteq> ([] :: gridline list) \<and>
   [((7, 10), (13, 10))] \<noteq> ([] :: gridline list) \<and>
   vec2_rotate (0, 2) (0, 0) (30 * pi / 180) = (- 1, sqrt 3) \<and>
   vec2_rotate (2, 0) (0, 0) (30 * pi / 180) = (sqrt 3, 1) \<and>
   createTickLinesSource [((10, 7), (10, 13))] [((7, 10), (13, 10))]
       (Some (demoMap\<lparr>bearing := 30\<rparr>)) 2 =
     [tickSegment (demoMap\<lparr>bearing := 30\<rparr>) (10, 7) (1, sqrt 3),
      tickSegment (demoMap\<lparr>bearing := 30\<rparr>) (10, 13) (- 1, - sqrt 3),
      tickSegment (demoMap\<lparr>bearing := 30\<rparr>) (7, 10) (- sqrt 3, 1),
      tickSegment (demoMap\<lparr>bearing := 30\<rparr>) (13, 10) (sqrt 3, - 1)] \<and>
   tickSegment (demoMap\<lparr>bearing := 30\<rparr>) (10, 7) (1, sqrt 3)
     = lineFeature [(10, 7), (101 / 10, (70 - sqrt 3) / 10)] \<and>
   vec2_rotate (0, 2) (0, 0) (90 * pi / 180) = (- 2, 0) \<and>
   vec2_rotate (2, 0) (0, 0) (90 * pi / 180) = (0, 2) \<and>
   createTickLinesSource [((10, 7), (10, 13))] [((7, 10), (13, 10))]
       (Some (demoMap\<lparr>bearing := 90\<rparr>)) 2 =
     [tickSegment (demoMap\<lparr>bearing := 90\<rparr>) (10, 7) (2, 0),
      tickSegment (demoMap\<lparr>bearing := 90\<rparr>) (10, 13) (- 2, 0),
      tickSegment (demoMap\<lparr>bearing := 90\<rparr>) (7, 10) (0, 2),
      tickSegment (demoMap\<lparr>bearing := 90\<rparr>) (13, 10) (0, - 2)]"
proof -
  have rad30: "30 * pi / 180 = pi / 6" and rad90: "90 * pi / 180 = pi / 2"
    by simp_all
  have v30: "vec2_rotate (0, 2) (0, 0) (30 * pi / 180) = (- 1, sqrt 3)"
    and h30: "vec2_rotate (2, 0) (0, 0) (30 * pi / 180) = (sqrt 3, 1)"
    unfolding rad30 by (simp_all add: vec2_rotate_def sin_30 cos_30)
  have v90: "vec2_rotate (0, 2) (0, 0) (90 * pi / 180) = (- 2, 0)"
    and h90: "vec2_rotate (2, 0) (0, 0) (90 * pi / 180) = (0, 2)"
    unfolding rad90 by (simp_all add: vec2_rotate_def)
  have ne1: "[((10, 7), (10, 13))] \<noteq> ([] :: gridline list)"
    and ne2: "[((7, 10), (13, 10))] \<noteq> ([] :: gridline list)"
    and tl: "(2 :: real) = (if (2 :: real) = 0 then 5 else 2)"
    by simp_all
  have b30: "30 * pi / 180 = bearing (demoMap\<lparr>bearing := 30\<rparr>) * pi / 180"
    and b90: "90 * pi / 180 = bearing (demoMap\<lparr>bearing := 90\<rparr>) * pi / 180"
    by simp_all
  have t30: "createTickLinesSource [((10, 7), (10, 13))] [((7, 10), (13, 10))]
       (Some (demoMap\<lparr>bearing := 30\<rparr>)) 2 =
     [tickSegment (demoMap\<lparr>bearing := 30\<rparr>) (10, 7) (1, sqrt 3),
      tickSegment (demoMap\<lparr>bearing := 30\<rparr>) (10, 13) (- 1, - sqrt 3),
      tickSegment (demoMap\<lparr>bearing := 30\<rparr>) (7, 10) (- sqrt 3, 1),
      tickSegment (demoMap\<lparr>bearing := 30\<rparr>) (13, 10) (sqrt 3, - 1)]"
    using tick_segments[of "[((10, 7), (10, 13))]" "[((7, 10), (13, 10))]" 2 2
        "30 * pi / 180" "demoMap\<lparr>bearing := 30\<rparr>" "(- 1, sqrt 3)" "(sqrt 3, 1)",
        OF ne1 ne2 tl b30 v30[symmetric] h30[symmetric], THEN conjunct1]
    by (simp only: fst_conv snd_conv list.map concat.simps append.simps minus_minus)
  have t90: "createTickLinesSource [((10, 7), (10, 13))] [((7, 10), (13, 10))]
       (Some (demoMap\<lparr>bearing := 90\<rparr>)) 2 =
     [tickSegment (demoMap\<lparr>bearing := 90\<rparr>) (10, 7) (2, 0),
      tickSegment (demoMap\<lparr>bearing := 90\<rparr>) (10, 13) (- 2, 0),
      tickSegment (demoMap\<lparr>bearing := 90\<rparr>) (7, 10) (0, 2),
      tickSegment (demoMap\<lparr>bearing := 90\<rparr>) (13, 10) (0, - 2)]"
    using tick_segments[of "[((10, 7), (10, 13))]" "[((7, 10), (13, 10))]" 2 2
        "90 * pi / 180" "demoMap\<lparr>bearing := 90\<rparr>" "(- 2, 0)" "(0, 2)",
        OF ne1 ne2 tl b90 v90[symmetric] h90[symmetric], THEN conjunct1]
    by (simp only: fst_conv snd_conv list.map concat.simps append.simps minus_minus minus_zero)
  have seg: "tickSegment (demoMap\<lparr>bearing := 30\<rparr>) (10, 7) (1, sqrt 3)
               = lineFeature [(10, 7), (101 / 10, (70 - sqrt 3) / 10)]"
    by (simp add: tickSegment_def demoMap_def lineFeature_def field_simps)
  show ?thesis
    apply (intro conjI)
            apply (rule ne1)
           apply (rule ne2)
          apply (rule v30)
         apply (rule h30)
        apply (rule t30)
       apply (rule seg)
      apply (rule v90)
     apply (rule h90)
    apply (rule t90)
    done
qed

end
